theory Spec2Isabelle
  imports Main "HOL-Library.Word"
begin

section \<open>Go values used by the program\<close>

subsection \<open>Decimal formatting (the \<open>%d\<close> verb of package fmt)\<close>

definition digit_char :: "nat \<Rightarrow> char" where
  "digit_char d = ''0123456789'' ! (d mod 10)"

fun string_of_nat :: "nat \<Rightarrow> string" where
  "string_of_nat n =
     (if n < 10 then [digit_char n]
      else string_of_nat (n div 10) @ [digit_char (n mod 10)])"

declare string_of_nat.simps [simp del]

definition string_of_int :: "int \<Rightarrow> string" where
  "string_of_int i =
     (if i < 0 then CHR ''-'' # string_of_nat (nat (- i)) else string_of_nat (nat i))"

subsection \<open>Errors, interface values and the outcome of a call\<close>

text \<open>
  Modelled from the spec: the error taxonomy of section 7 (\<open>NetworkError\<close>,
  \<open>TimeoutError\<close>, \<open>ProtocolError\<close>, \<open>MalformedFrame\<close>, \<open>DirectoryError\<close>). The
  given source files declare no error types of their own; \<open>ErrorString\<close> is the
  dynamic type of the values that \<open>errors.New\<close> and \<open>fmt.Errorf\<close> build, and
  \<open>RuntimeError\<close> that of the run-time panics of Go (\<open>runtime.Error\<close>).
\<close>

datatype error_kind =
    ErrorString
  | NetworkError
  | TimeoutError
  | ProtocolError
  | MalformedFrame
  | DirectoryError
  | RuntimeError

text \<open>
  A non-nil value of Go's interface type \<open>error\<close>: its dynamic type and the text its
  \<open>Error()\<close> method returns. A variable of type \<open>error\<close> is an \<open>error option\<close>, with
  \<open>None\<close> for \<open>nil\<close>.
\<close>

datatype error = GoError (kind_of: error_kind) (Error_msg: string)

text \<open>
  A value of type \<open>interface{}\<close>, as \<open>panic\<close> takes and \<open>recover\<close> returns: \<open>nil\<close>, a
  value whose dynamic type implements \<open>error\<close>, or a value that does not (strings and
  integers stand for these).
\<close>

datatype iface = Nil | ErrorVal error | StringVal string | IntVal int

text \<open>A terminating call either returns its result or panics with a value.\<close>

datatype 'a outcome = Returns 'a | Panics iface

text \<open>\<open>fmt.Sprintf("%v", r)\<close> and \<open>fmt.Errorf("%v", r)\<close>.\<close>

fun Sprintf_v :: "iface \<Rightarrow> string" where
  "Sprintf_v Nil = ''<nil>''"
| "Sprintf_v (ErrorVal e) = Error_msg e"
| "Sprintf_v (StringVal s) = s"
| "Sprintf_v (IntVal i) = string_of_int i"

definition Errorf_v :: "iface \<Rightarrow> error" where
  "Errorf_v r = GoError ErrorString (Sprintf_v r)"

text \<open>The type assertion \<open>err, ok := r.(error)\<close>.\<close>

fun assert_error :: "iface \<Rightarrow> error option" where
  "assert_error (ErrorVal e) = Some e"
| "assert_error _ = None"

section \<open>valve/util.go: the fault-containment policy\<close>

text \<open>
  \<open>recover()\<close> called from a deferred function: the value the surrounding call
  panicked with, and \<open>nil\<close> when it did not panic. The program predates Go modules
  (it is fetched and built with \<open>go get\<close> in a \<open>GOPATH\<close>), so \<open>panic(nil)\<close> keeps its
  original meaning and is recovered as \<open>nil\<close> as well.
\<close>

definition recover :: "'a outcome \<Rightarrow> iface" where
  "recover res = (case res of Returns _ \<Rightarrow> Nil | Panics r \<Rightarrow> r)"

text \<open>
  \<open>tryAndCatch\<close>: \<open>outErr\<close> starts as \<open>nil\<close>; the inner function assigns it the result
  of \<open>fn()\<close> when \<open>fn\<close> returns; the deferred function overwrites it when
  \<open>recover()\<close> is not \<open>nil\<close>. The call always returns \<open>outErr\<close>.
\<close>

definition tryAndCatch :: "(unit \<Rightarrow> error option outcome) \<Rightarrow> error option outcome" where
  "tryAndCatch fn =
     (let outErr = None;
          res = fn ();
          outErr = (case res of Returns e \<Rightarrow> e | Panics _ \<Rightarrow> outErr);
          r = recover res;
          outErr =
            (if r \<noteq> Nil then
               (case assert_error r of
                  Some err \<Rightarrow> Some err
                | None \<Rightarrow> Some (Errorf_v r))
             else outErr)
      in Returns outErr)"

definition tryNoCatch :: "(unit \<Rightarrow> error option outcome) \<Rightarrow> error option outcome" where
  "tryNoCatch fn = fn ()"

text \<open>The package-level variable \<open>Try\<close> and its initial value.\<close>

record valve_globals =
  Try :: "(unit \<Rightarrow> error option outcome) \<Rightarrow> error option outcome"

definition init_valve_globals :: valve_globals where
  "init_valve_globals = \<lparr> Try = tryAndCatch \<rparr>"

section \<open>Mastersteam.go\<close>

subsection \<open>Data\<close>

definition NL :: char where "NL = CHR 0x0A"
definition TAB :: char where "TAB = CHR 0x09"
definition DQ :: char where "DQ = CHR 0x22"

text \<open>
  \<open>net.TCPAddr\<close> for the IPv4 addresses the master server lists, and its \<open>String()\<close>
  method: the dotted address, a colon, the port.
\<close>

datatype TCPAddr = TCPAddr (addr_IP: "8 word list") (addr_Port: int)

fun join_dots :: "string list \<Rightarrow> string" where
  "join_dots [] = []"
| "join_dots [s] = s"
| "join_dots (s # t # ss) = s @ ''.'' @ join_dots (t # ss)"

definition TCPAddr_String :: "TCPAddr \<Rightarrow> string" where
  "TCPAddr_String addr =
     join_dots (map (\<lambda>b. string_of_nat (unat b)) (addr_IP addr)) @ '':''
       @ string_of_int (addr_Port addr)"

record ErrorObject =
  IP :: string
  Error :: string

text \<open>
  Modelled from the spec: \<open>valve.Player\<close>, \<open>valve.ServerInfo\<close> and its extended
  block are declared in files of package valve outside the given sources. The fields are
  those \<open>newServerQuerier\<close> reads, typed as the \<open>ServerObject\<close> fields they are
  assigned to (section 3, InfoRecord and PlayerRecord). \<open>player_Duration\<close> holds the
  bits of the 32-bit float.
\<close>

record Player =
  player_Name :: string
  player_Score :: "32 word"
  player_Duration :: "32 word"

record ServerInfoExt =
  ext_AppId :: "32 word"
  ext_GameVersion :: string
  ext_Port :: "16 word"
  ext_SteamId :: "64 word"
  ext_GameModeDescription :: string
  ext_GameId :: "64 word"

record ServerInfo =
  info_Protocol :: "8 word"
  info_Name :: string
  info_MapName :: string
  info_Folder :: string
  info_Game :: string
  info_Players :: "8 word"
  info_MaxPlayers :: "8 word"
  info_Bots :: "8 word"
  info_Type :: "8 word"
  info_OS :: "8 word"
  info_Visibility :: "8 word"
  info_Vac :: "8 word"
  info_Ext :: "ServerInfoExt option"

record ServerObject =
  Address :: string
  Protocol :: "8 word"
  Name :: string
  MapName :: string
  Folder :: string
  Game :: string
  Players :: "8 word"
  MaxPlayers :: "8 word"
  Bots :: "8 word"
  Type :: string
  Os :: string
  Visibility :: string
  Vac :: bool
  AppID :: "32 word"
  GameVersion :: string
  Port :: "16 word"
  SteamID :: string
  GameMode :: string
  GameID :: string
  PlayersOnline :: "Player list option"

text \<open>The \<open>obj interface{}\<close> argument of \<open>addJSON\<close>: a pointer to either struct.\<close>

datatype json_arg = ErrorObj ErrorObject | ServerObj ServerObject

subsection \<open>What lies outside the program\<close>

text \<open>
  The results of the calls the program makes on package valve, on \<open>encoding/json\<close>
  and, through valve, on the network. They are parameters of the model: the answers of
  the server at an address (opening the querier, the info query, the player query), the
  pages the master server returns and the error, if any, that ends the enumeration,
  the \<open>String()\<close> methods of the server-type and OS fields, and the JSON encoder.
\<close>

record world =
  ServerType_String :: "8 word \<Rightarrow> string"
  ServerOS_String :: "8 word \<Rightarrow> string"
  NewServerQuerier :: "string \<Rightarrow> nat \<Rightarrow> error option"
  QueryInfo :: "string \<Rightarrow> error + ServerInfo"
  QueryPlayers :: "string \<Rightarrow> error + Player list"
  json_Marshal :: "json_arg \<Rightarrow> error + string"
  json_Indent :: "string \<Rightarrow> string \<Rightarrow> string \<Rightarrow> string"
  master_pages :: "TCPAddr list list"
  master_err :: "error option"

text \<open>The calls issued on a server querier, in the order they are made.\<close>

datatype call =
    Call_NewServerQuerier string
  | Call_QueryInfo string
  | Call_QueryPlayers string
  | Call_Close string

text \<open>
  The package-level variables \<open>sOutputBuffer\<close> and \<open>sNumServers\<close> (an \<open>int64\<close>),
  together with the calls made so far.
\<close>

record state =
  sOutputBuffer :: string
  sNumServers :: "64 word"
  net_calls :: "call list"

text \<open>
  A piece of code run on the state either completes or panics; what it did to the state
  before the panic stays done.
\<close>

datatype effect = Done state | Panicked iface state

fun state_of :: "effect \<Rightarrow> state" where
  "state_of (Done st) = st"
| "state_of (Panicked r st) = st"

definition issue :: "call \<Rightarrow> state \<Rightarrow> state" where
  "issue c st = st\<lparr>net_calls := net_calls st @ [c]\<rparr>"

definition WriteString :: "string \<Rightarrow> state \<Rightarrow> state" where
  "WriteString s st = st\<lparr>sOutputBuffer := sOutputBuffer st @ s\<rparr>"

subsection \<open>addJSON and addError\<close>

definition addJSON :: "world \<Rightarrow> string \<Rightarrow> json_arg \<Rightarrow> state \<Rightarrow> effect" where
  "addJSON w hostAndPort obj st =
     (case json_Marshal w obj of
        Inl err \<Rightarrow> Panicked (ErrorVal err) st
      | Inr buf \<Rightarrow>
          (let indented = json_Indent w buf [TAB] [TAB];
               st = (if sNumServers st \<noteq> 0 then WriteString '','' st else st);
               st = WriteString ([NL, TAB, DQ] @ hostAndPort @ [DQ] @ '': '') st;
               st = WriteString indented st
           in Done (st\<lparr>sNumServers := sNumServers st + 1\<rparr>)))"

definition addError :: "world \<Rightarrow> string \<Rightarrow> error \<Rightarrow> state \<Rightarrow> effect" where
  "addError w hostAndPort err st =
     addJSON w hostAndPort (ErrorObj \<lparr>IP = hostAndPort, Error = Error_msg err\<rparr>) st"

subsection \<open>The function newServerQuerier hands to the batch processor\<close>

definition flagTimeout :: nat where
  "flagTimeout = 3"

text \<open>
  The \<open>ServerObject\<close> built from a decoded info record: the composite literal, then
  the \<open>Vac\<close>, \<open>Visibility\<close> and \<open>Ext\<close> branches. Fields not assigned keep their zero
  value.
\<close>

definition server_object :: "world \<Rightarrow> string \<Rightarrow> ServerInfo \<Rightarrow> ServerObject" where
  "server_object w a info =
     (let out = \<lparr> Address = a,
                  Protocol = info_Protocol info,
                  Name = info_Name info,
                  MapName = info_MapName info,
                  Folder = info_Folder info,
                  Game = info_Game info,
                  Players = info_Players info,
                  MaxPlayers = info_MaxPlayers info,
                  Bots = info_Bots info,
                  Type = ServerType_String w (info_Type info),
                  Os = ServerOS_String w (info_OS info),
                  Visibility = [],
                  Vac = False,
                  AppID = 0,
                  GameVersion = [],
                  Port = 0,
                  SteamID = [],
                  GameMode = [],
                  GameID = [],
                  PlayersOnline = None \<rparr>;
          out = (if info_Vac info = 1 then out\<lparr>Vac := True\<rparr> else out);
          out = (if info_Visibility info = 0 then out\<lparr>Visibility := ''public''\<rparr>
                 else out\<lparr>Visibility := ''private''\<rparr>);
          out = (case info_Ext info of
                   None \<Rightarrow> out
                 | Some ext \<Rightarrow>
                     out\<lparr> AppID := ext_AppId ext,
                          GameVersion := ext_GameVersion ext,
                          Port := ext_Port ext,
                          SteamID := string_of_nat (unat (ext_SteamId ext)),
                          GameMode := ext_GameModeDescription ext,
                          GameID := string_of_nat (unat (ext_GameId ext)) \<rparr>)
      in out)"

text \<open>\<open>defer query.Close()\<close>: the querier is closed when the function ends, panic or not.\<close>

definition defer_Close :: "string \<Rightarrow> effect \<Rightarrow> effect" where
  "defer_Close a res =
     (case res of
        Done st \<Rightarrow> Done (issue (Call_Close a) st)
      | Panicked r st \<Rightarrow> Panicked r (issue (Call_Close a) st))"

text \<open>
  The function literal of lines 150 to 207, run on one address. The two \<open>log.Printf\<close>
  calls write to the log only and are left out.
\<close>

definition query_task :: "world \<Rightarrow> TCPAddr \<Rightarrow> state \<Rightarrow> effect" where
  "query_task w addr st =
     (let a = TCPAddr_String addr;
          st = issue (Call_NewServerQuerier a) st
      in case NewServerQuerier w a flagTimeout of
           Some err \<Rightarrow> addError w a err st
         | None \<Rightarrow>
             defer_Close a
               (let st = issue (Call_QueryInfo a) st
                in case QueryInfo w a of
                     Inl err \<Rightarrow> addError w a err st
                   | Inr info \<Rightarrow>
                       (let out = server_object w a info;
                            (out, st) =
                              (if info_Players info > 0 then
                                 (let st = issue (Call_QueryPlayers a) st
                                  in case QueryPlayers w a of
                                       Inl err \<Rightarrow> (out\<lparr>PlayersOnline := None\<rparr>, st)
                                     | Inr players \<Rightarrow> (out\<lparr>PlayersOnline := Some players\<rparr>, st))
                               else (out, st))
                        in addJSON w a (ServerObj out) st)))"

subsection \<open>The batch processor and the master query\<close>

text \<open>
  Modelled from the spec: package batch is not among the given sources. Section 4.4:
  \<open>addBatch\<close> enqueues one task per address, a worker runs the processing function on
  each dequeued task, and \<open>finish()\<close> returns once every enqueued task has produced its
  outcome. The tasks are run one at a time in the order of submission, so the number of
  workers (\<open>flagJ\<close>, 20) does not appear; a panic in a worker ends the process, so the
  tasks after it are not run.
\<close>

fun AddBatch :: "(TCPAddr \<Rightarrow> state \<Rightarrow> effect) \<Rightarrow> TCPAddr list \<Rightarrow> state \<Rightarrow> effect" where
  "AddBatch fn [] st = Done st"
| "AddBatch fn (addr # servers) st =
     (case fn addr st of
        Panicked r st' \<Rightarrow> Panicked r st'
      | Done st' \<Rightarrow> AddBatch fn servers st')"

text \<open>
  Modelled from the spec: \<open>master.Query\<close> is not among the given sources. Section 4.3:
  every page of
  addresses is passed to the callback as soon as it arrives; the enumeration ends with
  \<open>nil\<close> or with the error that aborted it. The callback of \<open>newServerQuerier\<close> always
  returns \<open>nil\<close>, so only a panic inside it can stop the enumeration early.
\<close>

fun master_Query ::
  "TCPAddr list list \<Rightarrow> error option \<Rightarrow> (TCPAddr list \<Rightarrow> state \<Rightarrow> effect) \<Rightarrow> state
     \<Rightarrow> error option \<times> effect" where
  "master_Query [] err callback st = (err, Done st)"
| "master_Query (servers # pages) err callback st =
     (case callback servers st of
        Panicked r st' \<Rightarrow> (None, Panicked r st')
      | Done st' \<Rightarrow> master_Query pages err callback st')"

subsection \<open>newServerQuerier\<close>

text \<open>
  How a call of \<open>newServerQuerier\<close> ends: it returns with the envelope in
  \<open>sOutputBuffer\<close>, the process exits through \<open>os.Exit\<close>, or the process dies of a panic
  in a worker. In the function itself, \<open>bp.Finish()\<close> waits for tasks that have all been
  run already, the deferred \<open>bp.Terminate()\<close> does not touch the state (and does not
  run after \<open>os.Exit\<close>), and \<open>log.Printf\<close> only writes to the log.
\<close>

datatype run = Emitted state | Exited int state | Crashed iface state

fun final_state :: "run \<Rightarrow> state" where
  "final_state (Emitted st) = st"
| "final_state (Exited c st) = st"
| "final_state (Crashed r st) = st"

fun is_Emitted :: "run \<Rightarrow> bool" where
  "is_Emitted (Emitted st) = True"
| "is_Emitted _ = False"

definition newServerQuerier :: "world \<Rightarrow> state \<Rightarrow> run" where
  "newServerQuerier w st =
     (let st = st\<lparr>sNumServers := 0\<rparr>;
          st = st\<lparr>sOutputBuffer := []\<rparr>;
          bp = AddBatch (query_task w);
          st = WriteString (''{'' @ [NL]) st;
          st = WriteString ([TAB, DQ] @ ''data'' @ [DQ] @ '' : [{'') st
      in case master_Query (master_pages w) (master_err w) bp st of
           (err, Panicked r st) \<Rightarrow> Crashed r st
         | (err, Done st) \<Rightarrow>
             (case err of
                Some e \<Rightarrow> Exited 1 st
              | None \<Rightarrow>
                  (let st = WriteString (''}],'' @ [NL]) st;
                       st = WriteString
                              ([TAB, DQ] @ ''total'' @ [DQ] @ '':''
                                 @ string_of_int (sint (sNumServers st)) @ [NL]) st;
                       st = WriteString (''}'' @ [NL]) st
                   in Emitted st)))"

subsection \<open>The envelope, entry by entry\<close>

text \<open>
  The pieces \<open>addJSON\<close> writes before the encoded object: a comma unless the entry is
  the first one, then the quoted address and a colon.
\<close>

definition separator :: "state \<Rightarrow> string" where
  "separator st = (if sNumServers st \<noteq> 0 then '','' else [])"

definition entry_key :: "string \<Rightarrow> string" where
  "entry_key hostAndPort = [NL, TAB, DQ] @ hostAndPort @ [DQ] @ '': ''"

text \<open>
  The object a task hands to \<open>addJSON\<close> for an address, read off the answers of the
  server: an \<open>ErrorObject\<close> when opening the querier or the info query fails, otherwise
  the \<open>ServerObject\<close> with the roster when the player query was made and succeeded.
\<close>

definition outcome_of :: "world \<Rightarrow> string \<Rightarrow> json_arg" where
  "outcome_of w a =
     (case NewServerQuerier w a flagTimeout of
        Some err \<Rightarrow> ErrorObj \<lparr>IP = a, Error = Error_msg err\<rparr>
      | None \<Rightarrow>
          (case QueryInfo w a of
             Inl err \<Rightarrow> ErrorObj \<lparr>IP = a, Error = Error_msg err\<rparr>
           | Inr info \<Rightarrow>
               ServerObj ((server_object w a info)
                 \<lparr>PlayersOnline :=
                    (if info_Players info > 0 then
                       (case QueryPlayers w a of Inl err \<Rightarrow> None | Inr players \<Rightarrow> Some players)
                     else None)\<rparr>)))"

text \<open>The calls a task makes for an address.\<close>

definition calls_of :: "world \<Rightarrow> string \<Rightarrow> call list" where
  "calls_of w a =
     Call_NewServerQuerier a #
       (case NewServerQuerier w a flagTimeout of
          Some err \<Rightarrow> []
        | None \<Rightarrow>
            Call_QueryInfo a #
              (case QueryInfo w a of
                 Inl err \<Rightarrow> []
               | Inr info \<Rightarrow> (if info_Players info > 0 then [Call_QueryPlayers a] else []))
              @ [Call_Close a])"

text \<open>The text of the entry for an address, and whether its object can be encoded.\<close>

definition entry_text :: "world \<Rightarrow> string \<Rightarrow> string" where
  "entry_text w a =
     entry_key a @
       (case json_Marshal w (outcome_of w a) of
          Inl err \<Rightarrow> []
        | Inr buf \<Rightarrow> json_Indent w buf [TAB] [TAB])"

definition marshals :: "world \<Rightarrow> string \<Rightarrow> bool" where
  "marshals w a = (case json_Marshal w (outcome_of w a) of Inl err \<Rightarrow> False | Inr buf \<Rightarrow> True)"



definition envelope_head :: string where
  "envelope_head = ''{'' @ [NL] @ [TAB, DQ] @ ''data'' @ [DQ] @ '' : [{''"

definition total_line :: "64 word \<Rightarrow> string" where
  "total_line n = [TAB, DQ] @ ''total'' @ [DQ] @ '':'' @ string_of_int (sint n) @ [NL]"


definition submitted :: "world \<Rightarrow> string list" where
  "submitted w = map TCPAddr_String (concat (master_pages w))"

section \<open>Concrete inputs\<close>

text \<open>Functions used as concrete inputs of the policy.\<close>

definition fn_returns_nil :: "unit \<Rightarrow> error option outcome" where
  "fn_returns_nil u = Returns None"

definition fn_returns_timeout :: "unit \<Rightarrow> error option outcome" where
  "fn_returns_timeout u = Returns (Some (GoError TimeoutError ''i/o timeout''))"

definition fn_panics_nil :: "unit \<Rightarrow> error option outcome" where
  "fn_panics_nil u = Panics Nil"

definition index_error :: error where
  "index_error = GoError RuntimeError ''runtime error: index out of range''"

definition fn_panics_index :: "unit \<Rightarrow> error option outcome" where
  "fn_panics_index u = Panics (ErrorVal index_error)"

definition fn_panics_string :: "unit \<Rightarrow> error option outcome" where
  "fn_panics_string u = Panics (StringVal ''index out of range'')"

text \<open>Four servers, listed by the master server on two pages, and their answers.\<close>

definition addr_A :: TCPAddr where "addr_A = TCPAddr [10, 0, 0, 1] 27015"
definition addr_B :: TCPAddr where "addr_B = TCPAddr [10, 0, 0, 2] 27015"
definition addr_C :: TCPAddr where "addr_C = TCPAddr [10, 0, 0, 3] 27015"
definition addr_D :: TCPAddr where "addr_D = TCPAddr [10, 0, 0, 4] 27015"

definition info_A :: ServerInfo where
  "info_A = \<lparr> info_Protocol = 17, info_Name = ''alpha'', info_MapName = ''Tanoa'',
              info_Folder = ''Arma3'', info_Game = ''Vanguard'', info_Players = 2,
              info_MaxPlayers = 50, info_Bots = 0, info_Type = 100, info_OS = 119,
              info_Visibility = 0, info_Vac = 1, info_Ext = None \<rparr>"

definition info_B :: ServerInfo where
  "info_B = \<lparr> info_Protocol = 17, info_Name = ''bravo'', info_MapName = ''Malden'',
              info_Folder = ''Arma3'', info_Game = ''Escape'', info_Players = 0,
              info_MaxPlayers = 10, info_Bots = 0, info_Type = 100, info_OS = 108,
              info_Visibility = 2, info_Vac = 0, info_Ext = None \<rparr>"

definition timeout_error :: error where
  "timeout_error = GoError TimeoutError ''i/o timeout''"

definition network_error :: error where
  "network_error = GoError NetworkError ''no route to host''"

definition demo_Marshal :: "json_arg \<Rightarrow> error + string" where
  "demo_Marshal obj =
     Inr (case obj of
            ErrorObj e \<Rightarrow> ''{error '' @ IP e @ '' '' @ Error e @ ''}''
          | ServerObj so \<Rightarrow> ''{server '' @ Address so @ '' '' @ Name so @ '' '' @ Visibility so @ ''}'')"

definition demo_world :: world where
  "demo_world =
     \<lparr> ServerType_String = (\<lambda>t. if t = 100 then ''dedicated'' else ''unknown''),
       ServerOS_String = (\<lambda>t. if t = 108 then ''linux'' else ''windows''),
       NewServerQuerier = (\<lambda>a t. if a = ''10.0.0.4:27015'' then Some network_error else None),
       QueryInfo = (\<lambda>a. if a = ''10.0.0.1:27015'' then Inr info_A
                         else if a = ''10.0.0.2:27015'' then Inr info_B
                         else Inl timeout_error),
       QueryPlayers = (\<lambda>a. Inl timeout_error),
       json_Marshal = demo_Marshal,
       json_Indent = (\<lambda>buf prefix indent. buf),
       master_pages = [[addr_A, addr_B], [addr_C, addr_D]],
       master_err = None \<rparr>"


definition state0 :: state where
  "state0 = \<lparr> sOutputBuffer = [], sNumServers = 0, net_calls = [] \<rparr>"

section \<open>Properties of the fault-containment policy\<close>

lemma tryAndCatch_Returns: "fn () = Returns e \<Longrightarrow> tryAndCatch fn = Returns e"
  by (simp add: tryAndCatch_def recover_def)

lemma tryAndCatch_Panics_error:
  "fn () = Panics (ErrorVal err) \<Longrightarrow> tryAndCatch fn = Returns (Some err)"
  by (simp add: tryAndCatch_def recover_def)

lemma tryAndCatch_Panics_other:
  assumes "fn () = Panics r" and "r \<noteq> Nil" and "assert_error r = None"
  shows "tryAndCatch fn = Returns (Some (Errorf_v r))"
  using assms by (simp add: tryAndCatch_def recover_def)

lemma tryAndCatch_Panics_Nil: "fn () = Panics Nil \<Longrightarrow> tryAndCatch fn = Returns None"
  by (simp add: tryAndCatch_def recover_def)

lemma concrete_fns:
  "fn_returns_nil () = Returns None"
  "fn_returns_timeout () = Returns (Some (GoError TimeoutError ''i/o timeout''))"
  "fn_panics_nil () = Panics Nil"
  "fn_panics_index () = Panics (ErrorVal index_error)"
  "fn_panics_string () = Panics (StringVal ''index out of range'')"
  by (simp_all add: fn_returns_nil_def fn_returns_timeout_def fn_panics_nil_def
        fn_panics_index_def fn_panics_string_def)

text \<open>
  Claim C1, as stated: under the default policy a panic with any value \<open>r\<close> comes back
  as an ordinary error. It fails for \<open>panic(nil)\<close>: \<open>recover()\<close> is \<open>nil\<close>, the guard
  \<open>r != nil\<close> skips the conversion, and \<open>Try\<close> returns \<open>nil\<close>, which reports success.
\<close>

theorem Try_panic_nil_reports_success:
  "fn_panics_nil () = Panics Nil \<and> Try init_valve_globals fn_panics_nil = Returns None"
  by (simp add: concrete_fns init_valve_globals_def tryAndCatch_Panics_Nil)

text \<open>
  Claim C1, amended: \<open>Try\<close> is one package-level function variable whose initial value
  is \<open>tryAndCatch\<close>. Under it, a function that returns normally gives its own result;
  a function that panics with a non-nil value \<open>r\<close> gives an ordinary error return, \<open>r\<close>
  itself when \<open>r\<close> is an error and otherwise the error formatted from \<open>r\<close>. Assigning
  \<open>tryNoCatch\<close> to the variable makes \<open>Try(fn)\<close> behave as \<open>fn()\<close>, panic included.
\<close>

theorem Try_default_contains_faults:
  "Try init_valve_globals = tryAndCatch
   \<and> (fn () = Returns e \<longrightarrow> Try init_valve_globals fn = Returns e)
   \<and> (fn () = Panics r \<and> r \<noteq> Nil \<longrightarrow>
        Try init_valve_globals fn =
          Returns (Some (case assert_error r of Some err \<Rightarrow> err | None \<Rightarrow> Errorf_v r)))
   \<and> Try (g\<lparr>Try := tryNoCatch\<rparr>) fn = fn ()"
  by (cases "assert_error r")
     (simp_all add: init_valve_globals_def tryAndCatch_def recover_def tryNoCatch_def)

theorem Try_default_contains_faults_witness:
  "fn_returns_timeout () = Returns (Some (GoError TimeoutError ''i/o timeout''))
   \<and> Try init_valve_globals fn_returns_timeout
       = Returns (Some (GoError TimeoutError ''i/o timeout''))
   \<and> fn_panics_index () = Panics (ErrorVal index_error)
   \<and> ErrorVal index_error \<noteq> Nil
   \<and> Try init_valve_globals fn_panics_index = Returns (Some index_error)
   \<and> fn_panics_string () = Panics (StringVal ''index out of range'')
   \<and> StringVal ''index out of range'' \<noteq> Nil
   \<and> Try init_valve_globals fn_panics_string
       = Returns (Some (GoError ErrorString ''index out of range''))
   \<and> Try (init_valve_globals\<lparr>Try := tryNoCatch\<rparr>) fn_panics_string
       = Panics (StringVal ''index out of range'')"
proof -
  let ?timeout = "GoError TimeoutError ''i/o timeout''"
  let ?text = "StringVal ''index out of range''"
  note ret = concrete_fns(2) and pan = concrete_fns(4) and str = concrete_fns(5)
  have nn1: "ErrorVal index_error \<noteq> Nil" and nn2: "?text \<noteq> Nil"
    by simp_all
  have a: "Try init_valve_globals fn_returns_timeout = Returns (Some ?timeout)"
    using Try_default_contains_faults
            [of fn_returns_timeout "Some ?timeout" Nil init_valve_globals] ret
    by blast
  have "Try init_valve_globals fn_panics_index
          = Returns (Some (case assert_error (ErrorVal index_error) of
                             Some err \<Rightarrow> err | None \<Rightarrow> Errorf_v (ErrorVal index_error)))"
    using Try_default_contains_faults
            [of fn_panics_index None "ErrorVal index_error" init_valve_globals] pan nn1
    by blast
  then have b: "Try init_valve_globals fn_panics_index = Returns (Some index_error)"
    by simp
  have "Try init_valve_globals fn_panics_string
          = Returns (Some (case assert_error ?text of
                             Some err \<Rightarrow> err | None \<Rightarrow> Errorf_v ?text))"
    using Try_default_contains_faults [of fn_panics_string None ?text init_valve_globals] str nn2
    by blast
  then have c: "Try init_valve_globals fn_panics_string
                  = Returns (Some (GoError ErrorString ''index out of range''))"
    by (simp add: Errorf_v_def)
  have "Try (init_valve_globals\<lparr>Try := tryNoCatch\<rparr>) fn_panics_string = fn_panics_string ()"
    using Try_default_contains_faults [of fn_panics_string None ?text init_valve_globals]
    by blast
  then have d: "Try (init_valve_globals\<lparr>Try := tryNoCatch\<rparr>) fn_panics_string = Panics ?text"
    by (simp only: str)
  from ret pan str nn1 nn2 a b c d show ?thesis
    by blast
qed

text \<open>
  Claim C4, as stated: every panic raised while decoding is converted to a
  \<open>MalformedFrame\<close> outcome. The policy does not re-tag anything: the run-time panic of
  an out-of-range read, whose value is an error, comes back as that very error.
\<close>

theorem tryAndCatch_keeps_error_kind:
  "fn_panics_index () = Panics (ErrorVal index_error)
   \<and> tryAndCatch fn_panics_index = Returns (Some index_error)
   \<and> kind_of index_error = RuntimeError
   \<and> kind_of index_error \<noteq> MalformedFrame"
  by (simp add: concrete_fns tryAndCatch_Panics_error index_error_def)

text \<open>
  Claim C4, amended: every panic with a non-nil value raised by a function run under
  \<open>tryAndCatch\<close> is caught and returned as an ordinary error instead of propagating. The
  returned error is the panic value itself, kind unchanged, when that value is an error;
  otherwise it is a plain \<open>fmt.Errorf\<close> error whose text is the formatted value.
\<close>

theorem tryAndCatch_converts_panic:
  assumes "fn () = Panics r" and "r \<noteq> Nil"
  shows "\<exists>e. tryAndCatch fn = Returns (Some e)
           \<and> (\<forall>err. r = ErrorVal err \<longrightarrow> e = err)
           \<and> (assert_error r = None \<longrightarrow> kind_of e = ErrorString \<and> Error_msg e = Sprintf_v r)"
  using assms
  by (cases r) (simp_all add: tryAndCatch_def recover_def Errorf_v_def)

theorem tryAndCatch_converts_panic_witness:
  "fn_panics_string () = Panics (StringVal ''index out of range'')
   \<and> StringVal ''index out of range'' \<noteq> Nil
   \<and> (\<exists>e. tryAndCatch fn_panics_string = Returns (Some e)
          \<and> kind_of e = ErrorString \<and> Error_msg e = ''index out of range'')"
proof -
  note h1 = concrete_fns(5)
  have h2: "StringVal ''index out of range'' \<noteq> Nil"
    by simp
  from tryAndCatch_converts_panic
         [of fn_panics_string "StringVal ''index out of range''", OF h1 h2] h1 h2
  show ?thesis
    by auto
qed

text \<open>
  Claim C10: on a function that returns without panicking the two policies agree,
  \<open>tryAndCatch(fn) = tryNoCatch(fn) = fn()\<close>; hence they can differ only on a function
  that panics.
\<close>

theorem policies_agree_on_return:
  "(fn () = Returns e \<longrightarrow> tryAndCatch fn = tryNoCatch fn \<and> tryNoCatch fn = fn ())
   \<and> (tryAndCatch fn \<noteq> tryNoCatch fn \<longrightarrow> (\<exists>r. fn () = Panics r))"
  by (cases "fn ()") (simp_all add: tryAndCatch_def tryNoCatch_def recover_def)

theorem policies_agree_on_return_witness:
  "fn_returns_timeout () = Returns (Some (GoError TimeoutError ''i/o timeout''))
   \<and> tryAndCatch fn_returns_timeout = tryNoCatch fn_returns_timeout
   \<and> tryNoCatch fn_returns_timeout = fn_returns_timeout ()
   \<and> tryAndCatch fn_panics_string \<noteq> tryNoCatch fn_panics_string
   \<and> fn_panics_string () = Panics (StringVal ''index out of range'')"
proof -
  note ret = concrete_fns(2) and str = concrete_fns(5)
  have agree: "tryAndCatch fn_returns_timeout = tryNoCatch fn_returns_timeout
               \<and> tryNoCatch fn_returns_timeout = fn_returns_timeout ()"
    using policies_agree_on_return
            [of fn_returns_timeout "Some (GoError TimeoutError ''i/o timeout'')"] ret
    by blast
  have "tryAndCatch fn_panics_string
          = Returns (Some (Errorf_v (StringVal ''index out of range'')))"
    using str by (intro tryAndCatch_Panics_other) simp_all
  then have differ: "tryAndCatch fn_panics_string \<noteq> tryNoCatch fn_panics_string"
    by (simp add: tryNoCatch_def str)
  from policies_agree_on_return [of fn_panics_string None] differ
  have "\<exists>r. fn_panics_string () = Panics r"
    by blast
  with ret agree differ str show ?thesis
    by blast
qed

section \<open>Properties of the batch run\<close>


lemma server_object_upd_None:
  "(server_object w a info)\<lparr>PlayersOnline := None\<rparr> = server_object w a info"
  by (simp add: server_object_def Let_def split: option.splits)

lemma addJSON_char:
  "addJSON w a obj st =
     (case json_Marshal w obj of
        Inl err \<Rightarrow> Panicked (ErrorVal err) st
      | Inr buf \<Rightarrow>
          Done (st\<lparr>sOutputBuffer :=
                      sOutputBuffer st @ separator st @ entry_key a @ json_Indent w buf [TAB] [TAB],
                    sNumServers := sNumServers st + 1\<rparr>))"
  by (simp add: addJSON_def separator_def entry_key_def WriteString_def Let_def split: sum.splits)

lemma query_task_char:
  "query_task w addr st =
     (let a = TCPAddr_String addr;
          st1 = st\<lparr>net_calls := net_calls st @ calls_of w a\<rparr>
      in case json_Marshal w (outcome_of w a) of
           Inl err \<Rightarrow> Panicked (ErrorVal err) st1
         | Inr buf \<Rightarrow>
             Done (st1\<lparr>sOutputBuffer := sOutputBuffer st @ separator st @ entry_text w a,
                       sNumServers := sNumServers st + 1\<rparr>))"
  by (simp add: query_task_def addError_def addJSON_char outcome_of_def calls_of_def
        entry_text_def defer_Close_def issue_def separator_def Let_def server_object_upd_None
      split: option.splits sum.splits)





lemma AddBatch_append:
  "AddBatch fn (xs @ ys) st =
     (case AddBatch fn xs st of
        Panicked r st' \<Rightarrow> Panicked r st'
      | Done st' \<Rightarrow> AddBatch fn ys st')"
  by (induction xs arbitrary: st) (simp_all split: effect.splits)

lemma master_Query_concat:
  "master_Query pages err (AddBatch fn) st =
     (case AddBatch fn (concat pages) st of
        Panicked r st' \<Rightarrow> (None, Panicked r st')
      | Done st' \<Rightarrow> (err, Done st'))"
  by (induction pages arbitrary: st) (simp_all add: AddBatch_append split: effect.splits)


lemma AddBatch_marshals:
  assumes "AddBatch (query_task w) servers st = Done st'"
  shows "\<forall>addr \<in> set servers. marshals w (TCPAddr_String addr)"
  using assms
proof (induction servers arbitrary: st)
  case Nil
  then show ?case by simp
next
  case (Cons addr servers)
  from Cons.prems obtain st1 where
    step: "query_task w addr st = Done st1" and rest: "AddBatch (query_task w) servers st1 = Done st'"
    by (auto split: effect.splits)
  from step have "marshals w (TCPAddr_String addr)"
    by (auto simp: query_task_char marshals_def Let_def split: sum.splits)
  with Cons.IH [OF rest] show ?case by simp
qed

lemma AddBatch_total:
  assumes "\<forall>addr \<in> set servers. marshals w (TCPAddr_String addr)"
  shows "\<exists>st'. AddBatch (query_task w) servers st = Done st'"
  using assms
proof (induction servers arbitrary: st)
  case Nil
  then show ?case by simp
next
  case (Cons addr servers)
  from Cons.prems have "marshals w (TCPAddr_String addr)" by simp
  then obtain st1 where step: "query_task w addr st = Done st1"
    by (auto simp: query_task_char marshals_def Let_def split: sum.splits)
  from Cons.prems have "\<forall>addr \<in> set servers. marshals w (TCPAddr_String addr)" by simp
  from Cons.IH [OF this, of st1] step show ?case by simp
qed

lemma query_task_calls:
  "net_calls (state_of (query_task w addr st)) = net_calls st @ calls_of w (TCPAddr_String addr)"
  by (simp add: query_task_char Let_def split: sum.splits)

lemma AddBatch_calls:
  "set (net_calls (state_of (AddBatch (query_task w) servers st)))
     \<subseteq> set (net_calls st) \<union> (\<Union>addr \<in> set servers. set (calls_of w (TCPAddr_String addr)))"
proof (induction servers arbitrary: st)
  case Nil
  then show ?case by simp
next
  case (Cons addr servers)
  show ?case
  proof (cases "query_task w addr st")
    case (Done st1)
    then have "net_calls st1 = net_calls st @ calls_of w (TCPAddr_String addr)"
      using query_task_calls [of w addr st] by simp
    with Cons.IH [of st1] Done show ?thesis by auto
  next
    case (Panicked r st1)
    then have "net_calls st1 = net_calls st @ calls_of w (TCPAddr_String addr)"
      using query_task_calls [of w addr st] by simp
    with Panicked show ?thesis by auto
  qed
qed

lemma calls_of_QueryPlayers:
  assumes "Call_QueryPlayers a \<in> set (calls_of w b)"
  shows "a = b \<and> NewServerQuerier w a flagTimeout = None
         \<and> (\<exists>info. QueryInfo w a = Inr info \<and> 0 < info_Players info)"
  using assms
  by (cases "NewServerQuerier w b flagTimeout"; cases "QueryInfo w b")
     (auto simp: calls_of_def split: if_splits)

lemma newServerQuerier_char:
  "newServerQuerier w st =
     (case AddBatch (query_task w) (concat (master_pages w))
             (st\<lparr>sNumServers := 0, sOutputBuffer := envelope_head\<rparr>) of
        Panicked r st' \<Rightarrow> Crashed r st'
      | Done st' \<Rightarrow>
          (case master_err w of
             Some e \<Rightarrow> Exited 1 st'
           | None \<Rightarrow>
               Emitted (st'\<lparr>sOutputBuffer :=
                              sOutputBuffer st' @ ''}],'' @ [NL] @ total_line (sNumServers st')
                                @ ''}'' @ [NL]\<rparr>)))"
  by (simp add: newServerQuerier_def master_Query_concat WriteString_def envelope_head_def
        total_line_def Let_def split: effect.splits option.splits)

lemma newServerQuerier_emits_iff:
  "is_Emitted (newServerQuerier w st)
     \<longleftrightarrow> master_err w = None \<and> (\<forall>a \<in> set (submitted w). marshals w a)"
proof
  let ?st0 = "st\<lparr>sNumServers := 0, sOutputBuffer := envelope_head\<rparr>"
  assume "is_Emitted (newServerQuerier w st)"
  then obtain st' where
    "AddBatch (query_task w) (concat (master_pages w)) ?st0 = Done st'" and "master_err w = None"
    by (auto simp: newServerQuerier_char split: effect.splits option.splits)
  with AddBatch_marshals [of w "concat (master_pages w)" ?st0 st']
  show "master_err w = None \<and> (\<forall>a \<in> set (submitted w). marshals w a)"
    by (simp add: submitted_def)
next
  let ?st0 = "st\<lparr>sNumServers := 0, sOutputBuffer := envelope_head\<rparr>"
  assume a: "master_err w = None \<and> (\<forall>a \<in> set (submitted w). marshals w a)"
  then have "\<forall>addr \<in> set (concat (master_pages w)). marshals w (TCPAddr_String addr)"
    by (simp add: submitted_def)
  from AddBatch_total [OF this, of ?st0] a show "is_Emitted (newServerQuerier w st)"
    by (auto simp: newServerQuerier_char)
qed

lemma newServerQuerier_calls:
  "set (net_calls (final_state (newServerQuerier w st)))
     \<subseteq> set (net_calls st) \<union> (\<Union>a \<in> set (submitted w). set (calls_of w a))"
proof -
  let ?st0 = "st\<lparr>sNumServers := 0, sOutputBuffer := envelope_head\<rparr>"
  let ?res = "AddBatch (query_task w) (concat (master_pages w)) ?st0"
  have "net_calls (final_state (newServerQuerier w st)) = net_calls (state_of ?res)"
    by (simp add: newServerQuerier_char split: effect.splits option.splits)
  moreover have "set (net_calls (state_of ?res))
     \<subseteq> set (net_calls ?st0)
        \<union> (\<Union>addr \<in> set (concat (master_pages w)). set (calls_of w (TCPAddr_String addr)))"
    by (rule AddBatch_calls)
  ultimately show ?thesis
    by (simp add: submitted_def)
qed

subsection \<open>The concrete servers\<close>

lemma addr_strings:
  "TCPAddr_String addr_A = ''10.0.0.1:27015''"
  "TCPAddr_String addr_B = ''10.0.0.2:27015''"
  "TCPAddr_String addr_C = ''10.0.0.3:27015''"
  "TCPAddr_String addr_D = ''10.0.0.4:27015''"
  by (simp_all add: TCPAddr_String_def addr_A_def addr_B_def addr_C_def addr_D_def
        string_of_nat.simps string_of_int_def digit_char_def)




lemma demo_calls:
  "net_calls (final_state (newServerQuerier demo_world state0)) =
     [Call_NewServerQuerier ''10.0.0.1:27015'', Call_QueryInfo ''10.0.0.1:27015'',
      Call_QueryPlayers ''10.0.0.1:27015'', Call_Close ''10.0.0.1:27015'',
      Call_NewServerQuerier ''10.0.0.2:27015'', Call_QueryInfo ''10.0.0.2:27015'',
      Call_Close ''10.0.0.2:27015'',
      Call_NewServerQuerier ''10.0.0.3:27015'', Call_QueryInfo ''10.0.0.3:27015'',
      Call_Close ''10.0.0.3:27015'',
      Call_NewServerQuerier ''10.0.0.4:27015'']"
  by (simp add: newServerQuerier_char query_task_char addr_strings calls_of_def demo_world_def
        demo_Marshal_def state0_def info_A_def info_B_def Let_def)

section \<open>The claims about the batch run\<close>



text \<open>
  Claim C3: a player query is issued for an address only when its info record reports
  more than zero players; for an address whose info response reports zero players no
  \<open>QueryPlayers\<close> call is ever made, however the run ends.
\<close>

theorem player_query_only_when_players:
  assumes "Call_QueryPlayers a \<notin> set (net_calls st)"
  shows "(Call_QueryPlayers a \<in> set (net_calls (final_state (newServerQuerier w st)))
            \<longrightarrow> (\<exists>info. QueryInfo w a = Inr info \<and> 0 < info_Players info))
         \<and> (\<forall>info. QueryInfo w a = Inr info \<and> info_Players info = 0
               \<longrightarrow> Call_QueryPlayers a \<notin> set (net_calls (final_state (newServerQuerier w st))))"
proof -
  have only: "\<exists>info. QueryInfo w a = Inr info \<and> 0 < info_Players info"
    if "Call_QueryPlayers a \<in> set (net_calls (final_state (newServerQuerier w st)))"
  proof -
    from that newServerQuerier_calls [of w st] assms
    obtain b where "Call_QueryPlayers a \<in> set (calls_of w b)"
      by auto
    then show ?thesis
      using calls_of_QueryPlayers by blast
  qed
  then show ?thesis
    by auto
qed

theorem player_query_only_when_players_witness:
  "Call_QueryPlayers ''10.0.0.2:27015'' \<notin> set (net_calls state0)
   \<and> QueryInfo demo_world ''10.0.0.2:27015'' = Inr info_B
   \<and> info_Players info_B = 0
   \<and> Call_QueryPlayers ''10.0.0.2:27015''
        \<notin> set (net_calls (final_state (newServerQuerier demo_world state0)))
   \<and> Call_QueryPlayers ''10.0.0.1:27015''
        \<in> set (net_calls (final_state (newServerQuerier demo_world state0)))
   \<and> (\<exists>info. QueryInfo demo_world ''10.0.0.1:27015'' = Inr info \<and> 0 < info_Players info)"
proof -
  have h0: "Call_QueryPlayers a \<notin> set (net_calls state0)" for a
    by (simp add: state0_def)
  have qB: "QueryInfo demo_world ''10.0.0.2:27015'' = Inr info_B"
    by (simp add: demo_world_def)
  have pB: "info_Players info_B = 0"
    by (simp add: info_B_def)
  have inA: "Call_QueryPlayers ''10.0.0.1:27015''
               \<in> set (net_calls (final_state (newServerQuerier demo_world state0)))"
    by (simp add: demo_calls)
  from player_query_only_when_players [OF h0, of "''10.0.0.2:27015''" demo_world] qB pB
  have notB: "Call_QueryPlayers ''10.0.0.2:27015''
                \<notin> set (net_calls (final_state (newServerQuerier demo_world state0)))"
    by blast
  from player_query_only_when_players [OF h0, of "''10.0.0.1:27015''" demo_world] inA
  have exA: "\<exists>info. QueryInfo demo_world ''10.0.0.1:27015'' = Inr info \<and> 0 < info_Players info"
    by blast
  from h0 qB pB notB inA exA show ?thesis
    by blast
qed



text \<open>
  Claim C6, as stated: an unrecognised visibility byte makes decoding fail and is never
  mapped to a default string. Server B answers with visibility byte 2; its task
  completes and the entry says \<open>private\<close>.
\<close>

theorem visibility_byte_2_rendered_private:
  "NewServerQuerier demo_world (TCPAddr_String addr_B) flagTimeout = None
   \<and> QueryInfo demo_world (TCPAddr_String addr_B) = Inr info_B
   \<and> info_Visibility info_B = 2
   \<and> sOutputBuffer (state_of (query_task demo_world addr_B state0))
       = [NL, TAB, DQ] @ ''10.0.0.2:27015'' @ [DQ]
           @ '': {server 10.0.0.2:27015 bravo private}''"
  by (simp add: query_task_char addr_strings outcome_of_def entry_text_def entry_key_def
        separator_def server_object_def demo_world_def demo_Marshal_def state0_def info_B_def
        Let_def)

text \<open>
  Claim C6, amended: for every info record the info query returns, whatever its
  visibility byte, the task hands \<open>addJSON\<close> a server record whose visibility is
  \<open>public\<close> when the byte is 0 and \<open>private\<close> for every other value; no value of the
  byte turns the address into a failure.
\<close>

theorem visibility_public_or_private:
  assumes "NewServerQuerier w a flagTimeout = None"
    and "QueryInfo w a = Inr info"
    and "a = TCPAddr_String addr"
  shows "\<exists>so st1. query_task w addr st = defer_Close a (addJSON w a (ServerObj so) st1)
           \<and> Visibility so = (if info_Visibility info = 0 then ''public'' else ''private'')"
proof -
  have vis: "Visibility (server_object w a info)
               = (if info_Visibility info = 0 then ''public'' else ''private'')"
    by (simp add: server_object_def Let_def split: option.splits)
  show ?thesis
  proof (cases "QueryPlayers w a")
    case (Inl err)
    with assms vis show ?thesis
      by (auto simp: query_task_def Let_def)
  next
    case (Inr players)
    with assms vis show ?thesis
      by (auto simp: query_task_def Let_def)
  qed
qed

theorem visibility_public_or_private_witness:
  "NewServerQuerier demo_world ''10.0.0.2:27015'' flagTimeout = None
   \<and> QueryInfo demo_world ''10.0.0.2:27015'' = Inr info_B
   \<and> ''10.0.0.2:27015'' = TCPAddr_String addr_B
   \<and> (\<exists>so st1. query_task demo_world addr_B state0
                  = defer_Close ''10.0.0.2:27015''
                      (addJSON demo_world ''10.0.0.2:27015'' (ServerObj so) st1)
          \<and> Visibility so = ''private'')"
proof -
  have h1: "NewServerQuerier demo_world ''10.0.0.2:27015'' flagTimeout = None"
    by (simp add: demo_world_def)
  have h2: "QueryInfo demo_world ''10.0.0.2:27015'' = Inr info_B"
    by (simp add: demo_world_def)
  have h3: "''10.0.0.2:27015'' = TCPAddr_String addr_B"
    by (simp add: addr_strings)
  have v: "info_Visibility info_B \<noteq> 0"
    by (simp add: info_B_def)
  from visibility_public_or_private [OF h1 h2 h3, of state0] v h1 h2 h3 show ?thesis
    by simp
qed





end
